theory Spec2Isabelle
  imports Complex_Main "HOL-Library.Word"
begin

unbundle bit_operations_syntax

section \<open>Shared vocabulary: Python errors and the error monad\<close>

text \<open>
  The exceptions that \<^verbatim>\<open>geometry.py\<close> can raise. A function of the source that can
  raise returns \<open>error + 'a\<close> in the model, with \<open>Inl\<close> for the exception.
\<close>

datatype error = TypeError | ValueError | AssertionError | ZeroDivisionError

definition bind_err :: "error + 'a \<Rightarrow> ('a \<Rightarrow> error + 'b) \<Rightarrow> error + 'b" where
  "bind_err m f = (case m of Inl e \<Rightarrow> Inl e | Inr v \<Rightarrow> f v)"

text \<open>Running a function that can raise over a list, stopping at the first exception.\<close>

fun map_err :: "('a \<Rightarrow> error + 'b) \<Rightarrow> 'a list \<Rightarrow> error + 'b list" where
  "map_err f [] = Inr []"
| "map_err f (v # vs) =
     (case f v of
        Inl e \<Rightarrow> Inl e
      | Inr w \<Rightarrow> (case map_err f vs of Inl e \<Rightarrow> Inl e | Inr ws \<Rightarrow> Inr (w # ws)))"

section \<open>Grid iteration\<close>

text \<open>
  Python's \<^verbatim>\<open>range(start, stop, step)\<close> on integers: the values \<open>start + k * step\<close>
  that lie before \<open>stop\<close> in the direction of \<open>step\<close>; a zero step raises ValueError.
\<close>

definition py_range :: "int \<Rightarrow> int \<Rightarrow> int \<Rightarrow> error + int list" where
  "py_range start stop step =
     (if step = 0 then Inl ValueError
      else if 0 < step
        then Inr (map (\<lambda>k. start + int k * step) [0 ..< nat ((stop - start + step - 1) div step)])
        else Inr (map (\<lambda>k. start + int k * step) [0 ..< nat ((start - stop - step - 1) div (- step))]))"

text \<open>
  \<^verbatim>\<open>griditer(x, y, ncol, nrow=None, step=1)\<close>: the product of the two ranges, the
  first range in the outer position, as \<^verbatim>\<open>itertools.product\<close> enumerates it.
\<close>

definition griditer :: "int \<Rightarrow> int \<Rightarrow> int \<Rightarrow> int option \<Rightarrow> int \<Rightarrow> error + (int \<times> int) list" where
  "griditer x y ncol nrow step =
     (let nrow' = (case nrow of None \<Rightarrow> ncol | Some n \<Rightarrow> n) in
      bind_err (py_range x (x + ncol) step) (\<lambda>cols.
      bind_err (py_range y (y + nrow') step) (\<lambda>rows.
      Inr (List.product cols rows))))"

section \<open>Grid coordinates\<close>

text \<open>
  \<^verbatim>\<open>GridCoordinate\<close> holds a zoom level and two coordinates. A coordinate may be
  \<^verbatim>\<open>None\<close> (the conversions of tiles test for it), hence \<open>int option\<close>. Zoom levels
  are natural numbers: only there is Python's \<^verbatim>\<open>2 ** zoom\<close> an integer.
  A \<^verbatim>\<open>TileCoordinate\<close> adds no field.
\<close>

record GridCoordinate =
  gc_zoom :: nat
  gc_x :: "int option"
  gc_y :: "int option"

type_synonym TileCoordinate = GridCoordinate

definition TileCoordinate :: "nat \<Rightarrow> int option \<Rightarrow> int option \<Rightarrow> TileCoordinate" where
  "TileCoordinate zoom x y = \<lparr>gc_zoom = zoom, gc_x = x, gc_y = y\<rparr>"

text \<open>Python's \<^verbatim>\<open>v * n\<close> for a possibly unset \<open>v\<close> and an integer \<open>n\<close>.\<close>

definition mul_opt :: "int option \<Rightarrow> int \<Rightarrow> error + int" where
  "mul_opt v n = (case v of None \<Rightarrow> Inl TypeError | Some a \<Rightarrow> Inr (a * n))"

text \<open>
  Python's \<^verbatim>\<open>v % n\<close> for a possibly unset \<open>v\<close> and a positive integer \<open>n\<close>; the
  result has the sign of \<open>n\<close>, as \<open>mod\<close> on \<open>int\<close> has.
\<close>

definition mod_opt :: "int option \<Rightarrow> int \<Rightarrow> error + int" where
  "mod_opt v n = (case v of None \<Rightarrow> Inl TypeError | Some a \<Rightarrow> Inr (a mod n))"

text \<open>\<^verbatim>\<open>TileCoordinate.zoom_in\<close>: the generator's items, in the order it yields them.\<close>

definition Tile_zoom_in :: "TileCoordinate \<Rightarrow> error + TileCoordinate list" where
  "Tile_zoom_in self =
     bind_err (mul_opt (gc_x self) 2) (\<lambda>x2.
     bind_err (mul_opt (gc_y self) 2) (\<lambda>y2.
     bind_err (griditer x2 y2 2 None 1) (\<lambda>cells.
     Inr (map (\<lambda>(x, y). TileCoordinate (gc_zoom self + 1) (Some x) (Some y)) cells))))"

section \<open>Regions\<close>

text \<open>
  A \<^verbatim>\<open>RegionCoordinate\<close> extends \<^verbatim>\<open>GridCoordinate\<close> by the three fields its
  constructor computes.
\<close>

record RegionCoordinate = GridCoordinate +
  log_tiles_per_row :: int
  tiles_per_row :: int
  root_tile :: TileCoordinate

text \<open>
  \<^verbatim>\<open>RegionCoordinate.__init__\<close>: the assertion \<^verbatim>\<open>log_tiles_per_row in range(0, 5)\<close>
  comes first; the products \<^verbatim>\<open>x * tiles_per_row\<close> and \<^verbatim>\<open>y * tiles_per_row\<close> raise
  TypeError on an unset coordinate.
\<close>

definition RegionCoordinate_init ::
    "nat \<Rightarrow> int option \<Rightarrow> int option \<Rightarrow> int \<Rightarrow> error + RegionCoordinate" where
  "RegionCoordinate_init zoom x y k =
     (if \<not> (0 \<le> k \<and> k < 5) then Inl AssertionError
      else
        let tpr = 2 ^ nat k in
        bind_err (mul_opt x tpr) (\<lambda>rx.
        bind_err (mul_opt y tpr) (\<lambda>ry.
        Inr \<lparr>gc_zoom = zoom, gc_x = x, gc_y = y,
             log_tiles_per_row = k, tiles_per_row = tpr,
             root_tile = TileCoordinate zoom (Some rx) (Some ry)\<rparr>)))"

text \<open>
  \<^verbatim>\<open>RegionCoordinate.get_tiles\<close>: \<^verbatim>\<open>griditer(root_tile.x, root_tile.y, ncol=tiles_per_row)\<close>;
  the sums \<^verbatim>\<open>x + ncol\<close> inside griditer raise TypeError on an unset coordinate.
\<close>

definition Region_get_tiles :: "RegionCoordinate \<Rightarrow> error + TileCoordinate list" where
  "Region_get_tiles self =
     (case (gc_x (root_tile self), gc_y (root_tile self)) of
        (Some rx, Some ry) \<Rightarrow>
          bind_err (griditer rx ry (tiles_per_row self) None 1) (\<lambda>cells.
          Inr (map (\<lambda>(x, y). TileCoordinate (gc_zoom (root_tile self)) (Some x) (Some y)) cells))
      | _ \<Rightarrow> Inl TypeError)"

text \<open>\<^verbatim>\<open>RegionCoordinate.zoom_in\<close>: each item is built by the constructor, which may raise.\<close>

definition Region_zoom_in :: "RegionCoordinate \<Rightarrow> error + RegionCoordinate list" where
  "Region_zoom_in self =
     bind_err (mul_opt (gc_x self) 2) (\<lambda>x2.
     bind_err (mul_opt (gc_y self) 2) (\<lambda>y2.
     bind_err (griditer x2 y2 2 None 1) (\<lambda>cells.
     map_err (\<lambda>(x, y). RegionCoordinate_init (gc_zoom self + 1) (Some x) (Some y)
                          (log_tiles_per_row self)) cells)))"

text \<open>
  The specification's validity of a grid coordinate at its zoom level: both coordinates
  are set and lie in \<open>[0, 2^zoom)\<close>.
\<close>

definition valid_grid :: "'a GridCoordinate_scheme \<Rightarrow> bool" where
  "valid_grid c =
     (case (gc_x c, gc_y c) of
        (Some x, Some y) \<Rightarrow> 0 \<le> x \<and> x < 2 ^ gc_zoom c \<and> 0 \<le> y \<and> y < 2 ^ gc_zoom c
      | _ \<Rightarrow> False)"

text \<open>
  Repeated subdivision: the coordinates reached from a coordinate by any number of
  \<^verbatim>\<open>zoom_in\<close> steps, each step taking one of the items that \<^verbatim>\<open>zoom_in\<close> yields.
\<close>

inductive Tile_descendant :: "TileCoordinate \<Rightarrow> TileCoordinate \<Rightarrow> bool" where
  Tile_descendant_self: "Tile_descendant t t"
| Tile_descendant_child:
    "Tile_descendant t c \<Longrightarrow> Tile_zoom_in c = Inr cs \<Longrightarrow> d \<in> set cs \<Longrightarrow> Tile_descendant t d"

inductive Region_descendant :: "RegionCoordinate \<Rightarrow> RegionCoordinate \<Rightarrow> bool" where
  Region_descendant_self: "Region_descendant r r"
| Region_descendant_child:
    "Region_descendant r c \<Longrightarrow> Region_zoom_in c = Inr cs \<Longrightarrow> d \<in> set cs \<Longrightarrow> Region_descendant r d"

section \<open>Quad-tree keys\<close>

text \<open>Python's \<^verbatim>\<open>str\<close> on a non-negative integer: its decimal digits.\<close>

fun py_str :: "nat \<Rightarrow> string" where
  "py_str n =
     (if n < 10 then [''0123456789'' ! n]
      else py_str (n div 10) @ [''0123456789'' ! (n mod 10)])"

text \<open>
  The loop of \<^verbatim>\<open>GridCoordinate.encode_quad_tree\<close>, \<^verbatim>\<open>for i in range(self.zoom, 0, -1)\<close>:
  the first argument is the loop variable \<open>i\<close>, the last one the key built so far.
\<close>

fun quad_loop :: "nat \<Rightarrow> int \<Rightarrow> int \<Rightarrow> string \<Rightarrow> string" where
  "quad_loop 0 tx ty quad_key = quad_key"
| "quad_loop (Suc n) tx ty quad_key =
     (let mask = push_bit (Suc n - 1) (1 :: int);
          digit = (if tx AND mask \<noteq> 0 then 1 else 0) + (if ty AND mask \<noteq> 0 then 2 else 0)
      in quad_loop n tx ty (quad_key @ py_str digit))"

text \<open>
  \<^verbatim>\<open>encode_quad_tree\<close>: an unset coordinate raises TypeError at the first \<^verbatim>\<open>&\<close>,
  that is, only when the loop body runs at all.
\<close>

definition encode_quad_tree :: "'a GridCoordinate_scheme \<Rightarrow> error + string" where
  "encode_quad_tree self =
     (if gc_zoom self = 0 then Inr []
      else (case (gc_x self, gc_y self) of
              (Some tx, Some ty) \<Rightarrow> Inr (quad_loop (gc_zoom self) tx ty [])
            | _ \<Rightarrow> Inl TypeError))"

text \<open>
  The digit the specification gives for bit position \<open>i\<close> (from 1):
  with \<open>mask = 1 << (i - 1)\<close>, \<open>(1 if x & mask else 0) + (2 if y & mask else 0)\<close>.
\<close>

definition spec_quad_digit :: "int \<Rightarrow> int \<Rightarrow> nat \<Rightarrow> nat" where
  "spec_quad_digit x y i =
     (if x AND push_bit (i - 1) 1 \<noteq> 0 then 1 else 0) +
     (if y AND push_bit (i - 1) 1 \<noteq> 0 then 2 else 0)"

section \<open>Comparisons and connectives on possibly unset values\<close>

text \<open>
  Python's \<^verbatim>\<open><=\<close> and \<^verbatim>\<open>>=\<close> raise TypeError when an operand is \<^verbatim>\<open>None\<close>;
  \<^verbatim>\<open>and\<close> and \<^verbatim>\<open>or\<close> evaluate their right operand only when the left one does
  not decide.
\<close>

definition le_opt :: "'a::linorder option \<Rightarrow> 'a option \<Rightarrow> error + bool" where
  "le_opt a b = (case (a, b) of (Some u, Some v) \<Rightarrow> Inr (u \<le> v) | _ \<Rightarrow> Inl TypeError)"

definition ge_opt :: "'a::linorder option \<Rightarrow> 'a option \<Rightarrow> error + bool" where
  "ge_opt a b = (case (a, b) of (Some u, Some v) \<Rightarrow> Inr (u \<ge> v) | _ \<Rightarrow> Inl TypeError)"

definition gt_opt :: "'a::linorder option \<Rightarrow> 'a option \<Rightarrow> error + bool" where
  "gt_opt a b = (case (a, b) of (Some u, Some v) \<Rightarrow> Inr (u > v) | _ \<Rightarrow> Inl TypeError)"

definition py_and :: "error + bool \<Rightarrow> error + bool \<Rightarrow> error + bool" where
  "py_and a b = (case a of Inl e \<Rightarrow> Inl e | Inr p \<Rightarrow> if p then b else Inr False)"

definition py_or :: "error + bool \<Rightarrow> error + bool \<Rightarrow> error + bool" where
  "py_or a b = (case a of Inl e \<Rightarrow> Inl e | Inr p \<Rightarrow> if p then Inr True else b)"

text \<open>Python's \<^verbatim>\<open>max(a, b)\<close> and \<^verbatim>\<open>min(a, b)\<close>, which compare their arguments.\<close>

definition max_opt :: "'a::linorder option \<Rightarrow> 'a option \<Rightarrow> error + 'a" where
  "max_opt a b = (case (a, b) of (Some u, Some v) \<Rightarrow> Inr (max u v) | _ \<Rightarrow> Inl TypeError)"

definition min_opt :: "'a::linorder option \<Rightarrow> 'a option \<Rightarrow> error + 'a" where
  "min_opt a b = (case (a, b) of (Some u, Some v) \<Rightarrow> Inr (min u v) | _ \<Rightarrow> Inl TypeError)"

section \<open>Bounding boxes on the grid\<close>

record GridBB =
  bb_zoom :: nat
  bb_min :: GridCoordinate
  bb_max :: GridCoordinate

text \<open>
  \<^verbatim>\<open>GridBB.__init__\<close> builds its two corners with \<^verbatim>\<open>GridCoordinate(zoom, x, y)\<close>.
  \<^verbatim>\<open>GridCoordinate\<close> is declared with \<^verbatim>\<open>metaclass=ABCMeta\<close> and the abstract method
  \<^verbatim>\<open>zoom_in\<close>, and Python refuses to instantiate such a class: the call raises
  TypeError before \<^verbatim>\<open>__init__\<close> runs. Its concrete subclass \<^verbatim>\<open>TileCoordinate\<close>
  inherits the same \<^verbatim>\<open>__init__\<close> and can be instantiated.

  The class that builds the corners is therefore a parameter of the model of \<^verbatim>\<open>GridBB\<close>:
  \<open>GridCoordinate_new\<close> is the one the source names, \<open>TileCoordinate_new\<close> a concrete one.
\<close>

type_synonym coordinate_class = "nat \<Rightarrow> int option \<Rightarrow> int option \<Rightarrow> error + GridCoordinate"

definition GridCoordinate_new :: coordinate_class where
  "GridCoordinate_new zoom x y = Inl TypeError"

definition TileCoordinate_new :: coordinate_class where
  "TileCoordinate_new zoom x y = Inr (TileCoordinate zoom x y)"

definition GridBB_init_with ::
    "coordinate_class \<Rightarrow> nat \<Rightarrow> int option \<Rightarrow> int option \<Rightarrow> int option \<Rightarrow> int option
       \<Rightarrow> error + GridBB" where
  "GridBB_init_with new zoom min_x min_y max_x max_y =
     bind_err (new zoom min_x min_y) (\<lambda>mn.
     bind_err (new zoom max_x max_y) (\<lambda>mx.
     Inr \<lparr>bb_zoom = zoom, bb_min = mn, bb_max = mx\<rparr>))"

text \<open>The test \<^verbatim>\<open>intersects\<close> of \<^verbatim>\<open>GridBB.intersection\<close>.\<close>

definition GridBB_intersects :: "GridBB \<Rightarrow> GridBB \<Rightarrow> error + bool" where
  "GridBB_intersects self other =
     py_and (le_opt (gc_x (bb_min self)) (gc_x (bb_max other)))
    (py_and (ge_opt (gc_x (bb_max self)) (gc_x (bb_min other)))
    (py_and (le_opt (gc_y (bb_min self)) (gc_y (bb_max other)))
            (ge_opt (gc_y (bb_max self)) (gc_y (bb_min other)))))"

text \<open>
  \<^verbatim>\<open>GridBB.intersection\<close> returns a new box or the empty list \<^verbatim>\<open>[]\<close>; the model
  returns \<open>Some\<close> box or \<open>None\<close>.
\<close>

definition GridBB_intersection_with ::
    "coordinate_class \<Rightarrow> GridBB \<Rightarrow> GridBB \<Rightarrow> error + GridBB option" where
  "GridBB_intersection_with new self other =
     bind_err (GridBB_intersects self other) (\<lambda>intersects.
       if intersects then
         bind_err (max_opt (gc_x (bb_min self)) (gc_x (bb_min other))) (\<lambda>x0.
         bind_err (max_opt (gc_y (bb_min self)) (gc_y (bb_min other))) (\<lambda>y0.
         bind_err (min_opt (gc_x (bb_max self)) (gc_x (bb_max other))) (\<lambda>x1.
         bind_err (min_opt (gc_y (bb_max self)) (gc_y (bb_max other))) (\<lambda>y1.
         bind_err (GridBB_init_with new (bb_zoom self) (Some x0) (Some y0) (Some x1) (Some y1))
           (\<lambda>box. Inr (Some box))))))
       else Inr None)"

text \<open>
  \<^verbatim>\<open>GridBB.intersections\<close>. The tests \<^verbatim>\<open>if i:\<close> hold for a box (an object without
  \<^verbatim>\<open>__bool__\<close> or \<^verbatim>\<open>__len__\<close>) and fail for \<^verbatim>\<open>[]\<close>.
\<close>

definition GridBB_intersections_with ::
    "coordinate_class \<Rightarrow> GridBB \<Rightarrow> GridBB \<Rightarrow> error + GridBB list" where
  "GridBB_intersections_with new self other =
     bind_err (GridBB_intersection_with new self other) (\<lambda>i.
       let intersections = (case i of None \<Rightarrow> [] | Some box \<Rightarrow> [box]) in
       bind_err (ge_opt (gc_x (bb_max self)) (Some (2 ^ bb_zoom self))) (\<lambda>wraps.
         if wraps then
           bind_err (mod_opt (gc_x (bb_max self)) (2 ^ bb_zoom self)) (\<lambda>x1.
           bind_err (GridBB_init_with new (bb_zoom self) (Some 0) (gc_y (bb_min self))
                       (Some x1) (gc_y (bb_max self))) (\<lambda>wrapped.
           bind_err (GridBB_intersection_with new wrapped other) (\<lambda>i'.
             Inr (intersections @ (case i' of None \<Rightarrow> [] | Some box \<Rightarrow> [box])))))
         else Inr intersections))"

text \<open>The source's own operations instantiate the abstract class.\<close>

definition GridBB_init ::
    "nat \<Rightarrow> int option \<Rightarrow> int option \<Rightarrow> int option \<Rightarrow> int option \<Rightarrow> error + GridBB" where
  "GridBB_init = GridBB_init_with GridCoordinate_new"

definition GridBB_intersection :: "GridBB \<Rightarrow> GridBB \<Rightarrow> error + GridBB option" where
  "GridBB_intersection = GridBB_intersection_with GridCoordinate_new"

definition GridBB_intersections :: "GridBB \<Rightarrow> GridBB \<Rightarrow> error + GridBB list" where
  "GridBB_intersections = GridBB_intersections_with GridCoordinate_new"

text \<open>\<^verbatim>\<open>GridBB.is_inside\<close> builds nothing; it reads the box and the tile.\<close>

definition GridBB_is_inside :: "GridBB \<Rightarrow> 'a GridCoordinate_scheme \<Rightarrow> error + bool" where
  "GridBB_is_inside self tile =
     py_and (py_and (le_opt (gc_y (bb_min self)) (gc_y tile))
                    (le_opt (gc_y tile) (gc_y (bb_max self))))
            (py_or (py_and (le_opt (gc_x (bb_min self)) (gc_x tile))
                           (le_opt (gc_x tile) (gc_x (bb_max self))))
                   (py_and (gt_opt (gc_x (bb_max self)) (Some (2 ^ gc_zoom tile - 1)))
                           (py_and (le_opt (Some 0) (gc_x tile))
                                   (bind_err (mod_opt (gc_x (bb_max self)) (2 ^ gc_zoom tile))
                                      (\<lambda>m. le_opt (gc_x tile) (Some m))))))"


text \<open>
  The box that \<^verbatim>\<open>GridBB(zoom, min_x, min_y, max_x, max_y)\<close> stands for when its corners
  are set, and the specification's rectangular intersection of two such boxes: the
  component-wise maximum of the lower corners and minimum of the upper corners when the
  x ranges and the y ranges overlap, nothing otherwise.
\<close>

definition grid_box :: "nat \<Rightarrow> int \<Rightarrow> int \<Rightarrow> int \<Rightarrow> int \<Rightarrow> GridBB" where
  "grid_box zoom min_x min_y max_x max_y =
     \<lparr>bb_zoom = zoom, bb_min = TileCoordinate zoom (Some min_x) (Some min_y),
      bb_max = TileCoordinate zoom (Some max_x) (Some max_y)\<rparr>"

definition spec_rect_intersection ::
    "nat \<Rightarrow> int \<times> int \<times> int \<times> int \<Rightarrow> int \<times> int \<times> int \<times> int \<Rightarrow> GridBB list" where
  "spec_rect_intersection zoom a b =
     (case (a, b) of ((ax0, ay0, ax1, ay1), (bx0, by0, bx1, by1)) \<Rightarrow>
        if ax0 \<le> bx1 \<and> bx0 \<le> ax1 \<and> ay0 \<le> by1 \<and> by0 \<le> ay1
        then [grid_box zoom (max ax0 bx0) (max ay0 by0) (min ax1 bx1) (min ay1 by1)]
        else [])"

section \<open>Projection parameters\<close>


definition pi_2 :: real where
  "pi_2 = pi / 2"

definition pi_180 :: real where
  "pi_180 = pi / 180"

definition pi_360 :: real where
  "pi_360 = pi / 360"

definition c180_pi :: real where
  "c180_pi = 180 / pi"

record geometry =
  tilesize :: real
  initialresolution :: real
  originshift :: real
  originshift_180 :: real
  c180_originshift :: real

definition init_geometry :: "real \<Rightarrow> error + geometry" where
  "init_geometry ts =
     (if ts = 0 then Inl ZeroDivisionError
      else
        let shift = 2 * pi * 6378137 / 2 in
        Inr \<lparr>tilesize = ts,
             initialresolution = 2 * pi * 6378137 / ts,
             originshift = shift,
             originshift_180 = shift / 180,
             c180_originshift = 180 / shift\<rparr>)"

text \<open>The parameters after the module's own call \<^verbatim>\<open>init_geometry()\<close>, with tile size 256.\<close>

definition default_geometry :: geometry where
  "default_geometry =
     \<lparr>tilesize = 256,
      initialresolution = 2 * pi * 6378137 / 256,
      originshift = 2 * pi * 6378137 / 2,
      originshift_180 = (2 * pi * 6378137 / 2) / 180,
      c180_originshift = 180 / (2 * pi * 6378137 / 2)\<rparr>"

section \<open>Geographic, Cartesian and Mercator coordinates\<close>

record GeographicCoordinate =
  geo_lon :: "real option"
  geo_lat :: "real option"
  geo_height :: real


record MercatorCoordinate =
  merc_x :: "real option"
  merc_y :: "real option"

text \<open>Arithmetic on an unset value raises TypeError.\<close>

definition num_opt :: "real option \<Rightarrow> error + real" where
  "num_opt v = (case v of None \<Rightarrow> Inl TypeError | Some a \<Rightarrow> Inr a)"


text \<open>
  \<^verbatim>\<open>GeographicCoordinate.to_mercator\<close>: \<^verbatim>\<open>math.log\<close> raises ValueError on an argument
  that is not positive. (Where the real tangent is undefined, HOL's \<open>tan\<close> is 0 and the
  model raises as well; the floating-point tangent is finite there.)
\<close>

definition Geo_to_mercator :: "geometry \<Rightarrow> GeographicCoordinate \<Rightarrow> error + MercatorCoordinate" where
  "Geo_to_mercator g self =
     bind_err (num_opt (geo_lon self)) (\<lambda>lon.
     bind_err (num_opt (geo_lat self)) (\<lambda>lat.
       let t = tan ((90 + lat) * pi_360) in
       if t \<le> 0 then Inl ValueError
       else Inr \<lparr>merc_x = Some (lon * originshift_180 g),
                 merc_y = Some (ln t / pi_180 * originshift_180 g)\<rparr>))"



text \<open>\<^verbatim>\<open>MercatorCoordinate.to_geographic\<close> tests both components for \<^verbatim>\<open>None\<close>.\<close>

definition Merc_to_geographic :: "geometry \<Rightarrow> MercatorCoordinate \<Rightarrow> GeographicCoordinate" where
  "Merc_to_geographic g self =
     \<lparr>geo_lon = (case merc_x self of None \<Rightarrow> None
                  | Some x \<Rightarrow> Some (x * c180_originshift g)),
      geo_lat = (case merc_y self of None \<Rightarrow> None
                  | Some y \<Rightarrow>
                      Some ((2 * arctan (exp (y * c180_originshift g * pi_180)) - pi_2) * c180_pi)),
      geo_height = 0\<rparr>"



section \<open>Geographic bounding boxes\<close>






section \<open>Facts about grid iteration\<close>

lemma py_range_step1: "py_range a (a + 2) 1 = Inr [a, a + 1]"
proof -
  have "[0 ..< nat 2] = [0, Suc 0]"
    by (simp add: upt_conv_Cons)
  then show ?thesis
    by (simp add: py_range_def)
qed

lemma griditer_2x2:
  "griditer a b 2 None 1 = Inr [(a, b), (a, b + 1), (a + 1, b), (a + 1, b + 1)]"
  by (simp add: griditer_def bind_err_def py_range_step1)

lemma map_err_total:
  "(\<And>v. v \<in> set vs \<Longrightarrow> f v = Inr (g v)) \<Longrightarrow> map_err f vs = Inr (map g vs)"
  by (induction vs) auto

lemma py_range_unit: "py_range a (a + n) 1 = Inr (map (\<lambda>k. a + int k) [0 ..< nat n])"
  by (simp add: py_range_def)

lemma set_unit_range: "set (map (\<lambda>k. a + int k) [0 ..< nat n]) = {a ..< a + n}"
proof (rule set_eqI)
  fix v
  show "v \<in> set (map (\<lambda>k. a + int k) [0 ..< nat n]) \<longleftrightarrow> v \<in> {a ..< a + n}"
  proof
    assume "v \<in> set (map (\<lambda>k. a + int k) [0 ..< nat n])"
    then show "v \<in> {a ..< a + n}" by auto
  next
    assume h: "v \<in> {a ..< a + n}"
    then have "nat (v - a) < nat n" and "v = a + int (nat (v - a))" by auto
    then show "v \<in> set (map (\<lambda>k. a + int k) [0 ..< nat n])"
      by (metis (no_types, lifting) atLeastLessThan_iff image_eqI set_map set_upt zero_le)
  qed
qed

lemma griditer_square:
  "\<exists>cells. griditer a b n None 1 = Inr cells \<and> set cells = {a ..< a + n} \<times> {b ..< b + n}"
  by (simp add: griditer_def bind_err_def py_range_unit set_unit_range del: set_map)

lemma Region_init_ok:
  "0 \<le> k \<Longrightarrow> k < 5 \<Longrightarrow>
   RegionCoordinate_init z (Some x) (Some y) k =
     Inr \<lparr>gc_zoom = z, gc_x = Some x, gc_y = Some y, log_tiles_per_row = k,
          tiles_per_row = 2 ^ nat k,
          root_tile = TileCoordinate z (Some (x * 2 ^ nat k)) (Some (y * 2 ^ nat k))\<rparr>"
  by (simp add: RegionCoordinate_init_def bind_err_def mul_opt_def Let_def)

lemma Region_init_Inr:
  assumes "RegionCoordinate_init z x y k = Inr r"
  shows "0 \<le> k \<and> k < 5 \<and> (\<exists>a b. x = Some a \<and> y = Some b \<and>
     r = \<lparr>gc_zoom = z, gc_x = Some a, gc_y = Some b, log_tiles_per_row = k,
          tiles_per_row = 2 ^ nat k,
          root_tile = TileCoordinate z (Some (a * 2 ^ nat k)) (Some (b * 2 ^ nat k))\<rparr>)"
  using assms
  by (auto simp: RegionCoordinate_init_def bind_err_def mul_opt_def Let_def
      split: if_splits option.splits)

section \<open>Subdivision of tiles\<close>

lemma Tile_zoom_in_list:
  "Tile_zoom_in (TileCoordinate z (Some x) (Some y)) =
     Inr [TileCoordinate (z + 1) (Some (2 * x)) (Some (2 * y)),
          TileCoordinate (z + 1) (Some (2 * x)) (Some (2 * y + 1)),
          TileCoordinate (z + 1) (Some (2 * x + 1)) (Some (2 * y)),
          TileCoordinate (z + 1) (Some (2 * x + 1)) (Some (2 * y + 1))]"
  using griditer_2x2 [of "x * 2" "y * 2"]
  by (simp add: Tile_zoom_in_def bind_err_def mul_opt_def TileCoordinate_def mult.commute)

text \<open>
  Claim C3, as the specification states it: the four children come in the order
  \<open>(2x, 2y), (2x+1, 2y), (2x, 2y+1), (2x+1, 2y+1)\<close>, the x coordinate varying fastest.
  The source enumerates \<^verbatim>\<open>itertools.product(range(2x, 2x+2), range(2y, 2y+2))\<close>, whose
  last component varies fastest: at the tile \<open>(0, 0)\<close> of zoom 0 the second child is
  \<open>(0, 1)\<close>, not \<open>(1, 0)\<close>.
\<close>

theorem Tile_zoom_in_order_counterexample:
  "Tile_zoom_in (TileCoordinate 0 (Some 0) (Some 0)) \<noteq>
     Inr [TileCoordinate 1 (Some 0) (Some 0), TileCoordinate 1 (Some 1) (Some 0),
          TileCoordinate 1 (Some 0) (Some 1), TileCoordinate 1 (Some 1) (Some 1)]"
  using griditer_2x2 [of 0 0]
  by (simp add: Tile_zoom_in_def bind_err_def mul_opt_def TileCoordinate_def)

text \<open>
  Claim C3, amended: for every tile with zoom \<open>z\<close> and coordinates \<open>(x, y)\<close>, zoom_in
  yields exactly four tiles at zoom \<open>z + 1\<close>, in the order
  \<open>(2x, 2y), (2x, 2y+1), (2x+1, 2y), (2x+1, 2y+1)\<close>: the y coordinate varies fastest.
\<close>

theorem Tile_zoom_in_children:
  "Tile_zoom_in (TileCoordinate z (Some x) (Some y)) =
     Inr [TileCoordinate (z + 1) (Some (2 * x)) (Some (2 * y)),
          TileCoordinate (z + 1) (Some (2 * x)) (Some (2 * y + 1)),
          TileCoordinate (z + 1) (Some (2 * x + 1)) (Some (2 * y)),
          TileCoordinate (z + 1) (Some (2 * x + 1)) (Some (2 * y + 1))]"
  using griditer_2x2 [of "x * 2" "y * 2"]
  by (simp add: Tile_zoom_in_def bind_err_def mul_opt_def TileCoordinate_def mult.commute)

section \<open>Subdivision of regions\<close>

lemma halves_union:
  fixes a T :: int
  assumes "0 \<le> T"
  shows "{2 * a * T ..< 2 * a * T + T} \<union> {(2 * a + 1) * T ..< (2 * a + 1) * T + T}
         = {2 * (a * T) ..< 2 * (a * T) + 2 * T}"
  using assms by (auto simp: algebra_simps)

lemma doubles_union:
  fixes A T :: int
  shows "(\<Union>u \<in> {A ..< A + T}. {2 * u, 2 * u + 1}) = {2 * A ..< 2 * A + 2 * T}"
proof (rule set_eqI)
  fix w :: int
  show "w \<in> (\<Union>u \<in> {A ..< A + T}. {2 * u, 2 * u + 1}) \<longleftrightarrow> w \<in> {2 * A ..< 2 * A + 2 * T}"
  proof
    assume "w \<in> (\<Union>u \<in> {A ..< A + T}. {2 * u, 2 * u + 1})"
    then show "w \<in> {2 * A ..< 2 * A + 2 * T}" by auto
  next
    assume h: "w \<in> {2 * A ..< 2 * A + 2 * T}"
    have "w = 2 * (w div 2) \<or> w = 2 * (w div 2) + 1" by presburger
    moreover from h have "w div 2 \<in> {A ..< A + T}" by auto
    ultimately show "w \<in> (\<Union>u \<in> {A ..< A + T}. {2 * u, 2 * u + 1})" by blast
  qed
qed

lemma Tile_zoom_in_set:
  "\<exists>cs. Tile_zoom_in (TileCoordinate z (Some u) (Some v)) = Inr cs \<and>
     set cs = (\<lambda>(p, q). TileCoordinate (z + 1) (Some p) (Some q)) `
                ({2 * u, 2 * u + 1} \<times> {2 * v, 2 * v + 1})"
  using griditer_2x2 [of "u * 2" "v * 2"]
  by (auto simp: Tile_zoom_in_def bind_err_def mul_opt_def TileCoordinate_def mult.commute)

lemma Region_get_tiles_set:
  assumes "RegionCoordinate_init z (Some a) (Some b) k = Inr r"
  shows "\<exists>ts. Region_get_tiles r = Inr ts \<and>
     set ts = (\<lambda>(p, q). TileCoordinate z (Some p) (Some q)) `
                ({a * 2 ^ nat k ..< a * 2 ^ nat k + 2 ^ nat k} \<times>
                 {b * 2 ^ nat k ..< b * 2 ^ nat k + 2 ^ nat k})"
proof -
  from Region_init_Inr [OF assms]
  have r: "r = \<lparr>gc_zoom = z, gc_x = Some a, gc_y = Some b, log_tiles_per_row = k,
          tiles_per_row = 2 ^ nat k,
          root_tile = TileCoordinate z (Some (a * 2 ^ nat k)) (Some (b * 2 ^ nat k))\<rparr>"
    by simp
  obtain cells where c: "griditer (a * 2 ^ nat k) (b * 2 ^ nat k) (2 ^ nat k) None 1 = Inr cells"
    "set cells = {a * 2 ^ nat k ..< a * 2 ^ nat k + 2 ^ nat k} \<times>
                 {b * 2 ^ nat k ..< b * 2 ^ nat k + 2 ^ nat k}"
    using griditer_square by blast
  show ?thesis
    by (simp add: Region_get_tiles_def r TileCoordinate_def c bind_err_def)
qed

lemma Region_zoom_in_four:
  assumes "RegionCoordinate_init z (Some a) (Some b) k = Inr r"
  shows "\<exists>c1 c2 c3 c4.
     Region_zoom_in r = Inr [c1, c2, c3, c4] \<and>
     RegionCoordinate_init (z + 1) (Some (2 * a)) (Some (2 * b)) k = Inr c1 \<and>
     RegionCoordinate_init (z + 1) (Some (2 * a)) (Some (2 * b + 1)) k = Inr c2 \<and>
     RegionCoordinate_init (z + 1) (Some (2 * a + 1)) (Some (2 * b)) k = Inr c3 \<and>
     RegionCoordinate_init (z + 1) (Some (2 * a + 1)) (Some (2 * b + 1)) k = Inr c4"
proof -
  from Region_init_Inr [OF assms]
  have k: "0 \<le> k" "k < 5" and r: "gc_zoom r = z" "gc_x r = Some a" "gc_y r = Some b"
    "log_tiles_per_row r = k"
    by auto
  show ?thesis
    using griditer_2x2 [of "a * 2" "b * 2"]
    by (simp add: Region_zoom_in_def r bind_err_def mul_opt_def Region_init_ok [OF k] mult.commute)
qed

lemma map_err_Tile_zoom_in:
  assumes "set ts = (\<lambda>(p, q). TileCoordinate z (Some p) (Some q)) ` (A \<times> B)"
  shows "\<exists>tss. map_err Tile_zoom_in ts = Inr tss \<and>
     set (concat tss) = (\<lambda>(p, q). TileCoordinate (z + 1) (Some p) (Some q)) `
        ((\<Union>u \<in> A. {2 * u, 2 * u + 1}) \<times> (\<Union>v \<in> B. {2 * v, 2 * v + 1}))"
proof -
  define g where "g t = projr (Tile_zoom_in t)" for t
  define F where "F = (\<lambda>(p, q). TileCoordinate (z + 1) (Some p) (Some q))"
  define D where "D u = {2 * u, 2 * u + 1}" for u :: int
  have kids: "Tile_zoom_in (TileCoordinate z (Some u) (Some v)) =
        Inr (g (TileCoordinate z (Some u) (Some v))) \<and>
      set (g (TileCoordinate z (Some u) (Some v))) = F ` (D u \<times> D v)" for u v
    proof -
    from Tile_zoom_in_set [of z u v] obtain cs where
      cs: "Tile_zoom_in (TileCoordinate z (Some u) (Some v)) = Inr cs"
        "set cs = F ` (D u \<times> D v)"
      unfolding F_def D_def by blast
    from cs(1) have "g (TileCoordinate z (Some u) (Some v)) = cs" by (simp add: g_def)
    with cs show ?thesis by simp
  qed
  have mem: "t \<in> set ts \<longleftrightarrow> (\<exists>u \<in> A. \<exists>v \<in> B. t = TileCoordinate z (Some u) (Some v))" for t
    unfolding assms by auto
  have "Tile_zoom_in t = Inr (g t)" if "t \<in> set ts" for t
    using that kids by (auto simp: mem)
  then have m: "map_err Tile_zoom_in ts = Inr (map g ts)"
    by (intro map_err_total) blast
  have "set (concat (map g ts)) = (\<Union>t \<in> set ts. set (g t))"
    by simp
  also have "\<dots> = (\<Union>u \<in> A. \<Union>v \<in> B. F ` (D u \<times> D v))"
  proof (rule set_eqI)
    fix d
    have "d \<in> (\<Union>t \<in> set ts. set (g t)) \<longleftrightarrow> (\<exists>t. t \<in> set ts \<and> d \<in> set (g t))"
      by blast
    also have "\<dots> \<longleftrightarrow> (\<exists>u \<in> A. \<exists>v \<in> B. d \<in> set (g (TileCoordinate z (Some u) (Some v))))"
      by (auto simp: mem)
    also have "\<dots> \<longleftrightarrow> (\<exists>u \<in> A. \<exists>v \<in> B. d \<in> F ` (D u \<times> D v))"
      using kids by simp
    also have "\<dots> \<longleftrightarrow> d \<in> (\<Union>u \<in> A. \<Union>v \<in> B. F ` (D u \<times> D v))"
      by blast
    finally show "d \<in> (\<Union>t \<in> set ts. set (g t)) \<longleftrightarrow>
        d \<in> (\<Union>u \<in> A. \<Union>v \<in> B. F ` (D u \<times> D v))" .
  qed
  also have "\<dots> = F ` ((\<Union>u \<in> A. D u) \<times> (\<Union>v \<in> B. D v))"
    by blast
  finally have "set (concat (map g ts)) = F ` ((\<Union>u \<in> A. D u) \<times> (\<Union>v \<in> B. D v))" .
  with m show ?thesis
    unfolding F_def D_def by blast
qed

text \<open>
  Claim C8: a region built by \<^verbatim>\<open>RegionCoordinate(z, x, y, k)\<close> (the constructor accepts
  the arguments) subdivides into exactly four regions of zoom \<open>z + 1\<close> with the same
  \<open>log_tiles_per_row\<close>; none of the calls involved raises, and the tiles of the four
  children together are exactly the tiles obtained by subdividing every tile of the parent.
\<close>

theorem Region_zoom_in_refines_tiles:
  assumes "RegionCoordinate_init z x y k = Inr r"
  shows "\<exists>cs css ts tss.
     Region_zoom_in r = Inr cs \<and> length cs = 4 \<and>
     (\<forall>c \<in> set cs. gc_zoom c = z + 1 \<and> log_tiles_per_row c = k) \<and>
     map_err Region_get_tiles cs = Inr css \<and>
     Region_get_tiles r = Inr ts \<and>
     map_err Tile_zoom_in ts = Inr tss \<and>
     set (concat css) = set (concat tss)"
proof -
  from Region_init_Inr [OF assms] obtain a b where
    xy: "x = Some a" "y = Some b" and k: "0 \<le> k" "k < 5"
    by blast
  define T :: int where "T = 2 ^ nat k"
  have T: "0 \<le> T" by (simp add: T_def)
  define F where "F = (\<lambda>(p, q). TileCoordinate (z + 1) (Some p) (Some q))"
  from assms xy have init: "RegionCoordinate_init z (Some a) (Some b) k = Inr r" by simp
  from Region_zoom_in_four [OF init] obtain c1 c2 c3 c4 where
    cs: "Region_zoom_in r = Inr [c1, c2, c3, c4]" and
    c1: "RegionCoordinate_init (z + 1) (Some (2 * a)) (Some (2 * b)) k = Inr c1" and
    c2: "RegionCoordinate_init (z + 1) (Some (2 * a)) (Some (2 * b + 1)) k = Inr c2" and
    c3: "RegionCoordinate_init (z + 1) (Some (2 * a + 1)) (Some (2 * b)) k = Inr c3" and
    c4: "RegionCoordinate_init (z + 1) (Some (2 * a + 1)) (Some (2 * b + 1)) k = Inr c4"
    by blast
  have fields: "\<forall>c \<in> set [c1, c2, c3, c4]. gc_zoom c = z + 1 \<and> log_tiles_per_row c = k"
    using Region_init_Inr [OF c1] Region_init_Inr [OF c2]
      Region_init_Inr [OF c3] Region_init_Inr [OF c4]
    by auto
  from Region_get_tiles_set [OF c1] obtain t1 where
    t1: "Region_get_tiles c1 = Inr t1"
      "set t1 = F ` ({2 * a * T ..< 2 * a * T + T} \<times> {2 * b * T ..< 2 * b * T + T})"
    unfolding T_def F_def by blast
  from Region_get_tiles_set [OF c2] obtain t2 where
    t2: "Region_get_tiles c2 = Inr t2"
      "set t2 = F ` ({2 * a * T ..< 2 * a * T + T} \<times> {(2 * b + 1) * T ..< (2 * b + 1) * T + T})"
    unfolding T_def F_def by blast
  from Region_get_tiles_set [OF c3] obtain t3 where
    t3: "Region_get_tiles c3 = Inr t3"
      "set t3 = F ` ({(2 * a + 1) * T ..< (2 * a + 1) * T + T} \<times> {2 * b * T ..< 2 * b * T + T})"
    unfolding T_def F_def by blast
  from Region_get_tiles_set [OF c4] obtain t4 where
    t4: "Region_get_tiles c4 = Inr t4"
      "set t4 = F ` ({(2 * a + 1) * T ..< (2 * a + 1) * T + T} \<times>
                     {(2 * b + 1) * T ..< (2 * b + 1) * T + T})"
    unfolding T_def F_def by blast
  have css: "map_err Region_get_tiles [c1, c2, c3, c4] = Inr [t1, t2, t3, t4]"
    by (simp add: t1 t2 t3 t4)
  have "set (concat [t1, t2, t3, t4]) =
      F ` (({2 * a * T ..< 2 * a * T + T} \<union> {(2 * a + 1) * T ..< (2 * a + 1) * T + T}) \<times>
           ({2 * b * T ..< 2 * b * T + T} \<union> {(2 * b + 1) * T ..< (2 * b + 1) * T + T}))"
    by (auto simp: t1 t2 t3 t4)
  then have left: "set (concat [t1, t2, t3, t4]) =
      F ` ({2 * (a * T) ..< 2 * (a * T) + 2 * T} \<times> {2 * (b * T) ..< 2 * (b * T) + 2 * T})"
    by (simp only: halves_union [OF T])
  from Region_get_tiles_set [OF init] obtain ts where
    ts: "Region_get_tiles r = Inr ts"
      "set ts = (\<lambda>(p, q). TileCoordinate z (Some p) (Some q)) `
                  ({a * T ..< a * T + T} \<times> {b * T ..< b * T + T})"
    unfolding T_def by blast
  from map_err_Tile_zoom_in [OF ts(2)] obtain tss where
    tss: "map_err Tile_zoom_in ts = Inr tss"
      "set (concat tss) = F ` ((\<Union>u \<in> {a * T ..< a * T + T}. {2 * u, 2 * u + 1}) \<times>
                              (\<Union>v \<in> {b * T ..< b * T + T}. {2 * v, 2 * v + 1}))"
    unfolding F_def by blast
  from tss(2) have right: "set (concat tss) =
      F ` ({2 * (a * T) ..< 2 * (a * T) + 2 * T} \<times> {2 * (b * T) ..< 2 * (b * T) + 2 * T})"
    by (simp only: doubles_union)
  from left right have "set (concat [t1, t2, t3, t4]) = set (concat tss)" by simp
  with cs fields css ts(1) tss(1) show ?thesis
    by (intro exI [of _ "[c1, c2, c3, c4]"] exI [of _ "[t1, t2, t3, t4]"] exI [of _ ts]
        exI [of _ tss]) simp
qed

theorem Region_zoom_in_refines_tiles_witness:
  "\<exists>r cs css ts tss.
     RegionCoordinate_init 1 (Some 1) (Some 0) 1 = Inr r \<and>
     Region_zoom_in r = Inr cs \<and> length cs = 4 \<and>
     list_all (\<lambda>c. gc_zoom c = 2 \<and> log_tiles_per_row c = 1) cs \<and>
     map_err Region_get_tiles cs = Inr css \<and>
     Region_get_tiles r = Inr ts \<and>
     map_err Tile_zoom_in ts = Inr tss \<and>
     set (concat css) = set (concat tss)"
proof -
  obtain r where r: "RegionCoordinate_init 1 (Some 1) (Some 0) 1 = Inr r"
    by (simp add: RegionCoordinate_init_def bind_err_def mul_opt_def)
  from Region_zoom_in_refines_tiles [OF r] r show ?thesis
    by (auto simp: list_all_iff)
qed

section \<open>Subdivision stays on the grid\<close>

lemma Tile_zoom_in_valid:
  assumes v: "valid_grid t"
  shows "\<exists>cs. Tile_zoom_in t = Inr cs \<and> length cs = 4 \<and>
         (\<forall>c \<in> set cs. gc_zoom c = gc_zoom t + 1 \<and> valid_grid c)"
proof -
  from v obtain a b where ab: "gc_x t = Some a" "gc_y t = Some b"
    and rng: "0 \<le> a" "a < 2 ^ gc_zoom t" "0 \<le> b" "b < 2 ^ gc_zoom t"
    by (auto simp: valid_grid_def split: option.splits)
  have t: "t = TileCoordinate (gc_zoom t) (Some a) (Some b)"
    using ab by (simp add: TileCoordinate_def)
  have kids: "Tile_zoom_in t =
     Inr [TileCoordinate (gc_zoom t + 1) (Some (2 * a)) (Some (2 * b)),
          TileCoordinate (gc_zoom t + 1) (Some (2 * a)) (Some (2 * b + 1)),
          TileCoordinate (gc_zoom t + 1) (Some (2 * a + 1)) (Some (2 * b)),
          TileCoordinate (gc_zoom t + 1) (Some (2 * a + 1)) (Some (2 * b + 1))]"
    using Tile_zoom_in_list [of "gc_zoom t" a b] t by simp
  show ?thesis
    unfolding kids using rng by (simp add: valid_grid_def TileCoordinate_def)
qed

lemma Region_zoom_in_valid:
  assumes init: "RegionCoordinate_init z x y k = Inr r" and v: "valid_grid r"
  shows "\<exists>cs. Region_zoom_in r = Inr cs \<and> length cs = 4 \<and>
         (\<forall>c \<in> set cs. gc_zoom c = gc_zoom r + 1 \<and> valid_grid c \<and>
            (\<exists>x' y'. RegionCoordinate_init (z + 1) x' y' k = Inr c))"
proof -
  from Region_init_Inr [OF init] obtain a b where
    xy: "x = Some a" "y = Some b" and r: "gc_zoom r = z" "gc_x r = Some a" "gc_y r = Some b"
    by auto
  from v r have rng: "0 \<le> a" "a < 2 ^ z" "0 \<le> b" "b < 2 ^ z"
    by (auto simp: valid_grid_def)
  from init xy have init': "RegionCoordinate_init z (Some a) (Some b) k = Inr r" by simp
  from Region_zoom_in_four [OF init'] obtain c1 c2 c3 c4 where
    cs: "Region_zoom_in r = Inr [c1, c2, c3, c4]" and
    c1: "RegionCoordinate_init (z + 1) (Some (2 * a)) (Some (2 * b)) k = Inr c1" and
    c2: "RegionCoordinate_init (z + 1) (Some (2 * a)) (Some (2 * b + 1)) k = Inr c2" and
    c3: "RegionCoordinate_init (z + 1) (Some (2 * a + 1)) (Some (2 * b)) k = Inr c3" and
    c4: "RegionCoordinate_init (z + 1) (Some (2 * a + 1)) (Some (2 * b + 1)) k = Inr c4"
    by blast
  have "gc_zoom c1 = z + 1 \<and> valid_grid c1"
    using Region_init_Inr [OF c1] rng by (auto simp: valid_grid_def)
  moreover have "gc_zoom c2 = z + 1 \<and> valid_grid c2"
    using Region_init_Inr [OF c2] rng by (auto simp: valid_grid_def)
  moreover have "gc_zoom c3 = z + 1 \<and> valid_grid c3"
    using Region_init_Inr [OF c3] rng by (auto simp: valid_grid_def)
  moreover have "gc_zoom c4 = z + 1 \<and> valid_grid c4"
    using Region_init_Inr [OF c4] rng by (auto simp: valid_grid_def)
  moreover have "\<exists>x' y'. RegionCoordinate_init (z + 1) x' y' k = Inr c1"
    "\<exists>x' y'. RegionCoordinate_init (z + 1) x' y' k = Inr c2"
    "\<exists>x' y'. RegionCoordinate_init (z + 1) x' y' k = Inr c3"
    "\<exists>x' y'. RegionCoordinate_init (z + 1) x' y' k = Inr c4"
    using c1 c2 c3 c4 by blast+
  ultimately show ?thesis
    using cs r(1) by simp
qed

lemma Tile_descendant_valid:
  assumes "Tile_descendant t d" and "valid_grid t"
  shows "valid_grid d \<and> gc_zoom t \<le> gc_zoom d"
  using assms
proof (induction rule: Tile_descendant.induct)
  case (Tile_descendant_self t)
  then show ?case by simp
next
  case (Tile_descendant_child t c cs d)
  then have c: "valid_grid c" "gc_zoom t \<le> gc_zoom c" by simp_all
  from Tile_zoom_in_valid [OF c(1)] Tile_descendant_child.hyps(2,3)
  have "gc_zoom d = gc_zoom c + 1 \<and> valid_grid d" by auto
  with c(2) show ?case by simp
qed

lemma Region_descendant_valid:
  assumes "Region_descendant r d" and "RegionCoordinate_init z x y k = Inr r" and "valid_grid r"
  shows "valid_grid d \<and> gc_zoom r \<le> gc_zoom d \<and>
         (\<exists>z' x' y'. RegionCoordinate_init z' x' y' k = Inr d)"
  using assms
proof (induction rule: Region_descendant.induct)
  case (Region_descendant_self r)
  then show ?case by blast
next
  case (Region_descendant_child r c cs d)
  then obtain z' x' y' where c: "valid_grid c" "gc_zoom r \<le> gc_zoom c"
    "RegionCoordinate_init z' x' y' k = Inr c"
    by blast
  from Region_zoom_in_valid [OF c(3) c(1)] Region_descendant_child.hyps(2,3)
  have "gc_zoom d = gc_zoom c + 1 \<and> valid_grid d \<and>
      (\<exists>x'' y''. RegionCoordinate_init (z' + 1) x'' y'' k = Inr d)"
    by auto
  with c(2) show ?case by auto
qed

text \<open>
  Claim C10: a tile whose coordinates lie in \<open>[0, 2^zoom)\<close> subdivides into four tiles
  of the next zoom level whose coordinates lie in \<open>[0, 2^(zoom+1))\<close>, and so does a
  region built by the constructor; hence every coordinate reached by repeated subdivision
  of a valid tile or region is valid at its own zoom level.
\<close>

theorem zoom_in_preserves_valid_grid:
  "(valid_grid t \<longrightarrow>
      (\<exists>cs. Tile_zoom_in t = Inr cs \<and> length cs = 4 \<and>
         (\<forall>c \<in> set cs. gc_zoom c = gc_zoom t + 1 \<and> valid_grid c))) \<and>
   (RegionCoordinate_init z x y k = Inr r \<and> valid_grid r \<longrightarrow>
      (\<exists>cs. Region_zoom_in r = Inr cs \<and> length cs = 4 \<and>
         (\<forall>c \<in> set cs. gc_zoom c = gc_zoom r + 1 \<and> valid_grid c))) \<and>
   (valid_grid t \<and> Tile_descendant t d \<longrightarrow> valid_grid d) \<and>
   (RegionCoordinate_init z x y k = Inr r \<and> valid_grid r \<and> Region_descendant r e \<longrightarrow>
      valid_grid e)"
proof (intro conjI impI)
  assume "valid_grid t"
  then show "\<exists>cs. Tile_zoom_in t = Inr cs \<and> length cs = 4 \<and>
         (\<forall>c \<in> set cs. gc_zoom c = gc_zoom t + 1 \<and> valid_grid c)"
    by (rule Tile_zoom_in_valid)
next
  assume "RegionCoordinate_init z x y k = Inr r \<and> valid_grid r"
  then have "\<exists>cs. Region_zoom_in r = Inr cs \<and> length cs = 4 \<and>
         (\<forall>c \<in> set cs. gc_zoom c = gc_zoom r + 1 \<and> valid_grid c \<and>
            (\<exists>x' y'. RegionCoordinate_init (z + 1) x' y' k = Inr c))"
    using Region_zoom_in_valid by blast
  then show "\<exists>cs. Region_zoom_in r = Inr cs \<and> length cs = 4 \<and>
         (\<forall>c \<in> set cs. gc_zoom c = gc_zoom r + 1 \<and> valid_grid c)"
    by blast
next
  assume "valid_grid t \<and> Tile_descendant t d"
  then show "valid_grid d"
    using Tile_descendant_valid by blast
next
  assume "RegionCoordinate_init z x y k = Inr r \<and> valid_grid r \<and> Region_descendant r e"
  then show "valid_grid e"
    using Region_descendant_valid by blast
qed

theorem zoom_in_preserves_valid_grid_witness:
  "valid_grid (TileCoordinate 1 (Some 1) (Some 0)) \<and>
   (\<exists>cs. Tile_zoom_in (TileCoordinate 1 (Some 1) (Some 0)) = Inr cs \<and> length cs = 4 \<and>
      list_all (\<lambda>c. gc_zoom c = 2 \<and> valid_grid c) cs) \<and>
   (\<exists>r cs. RegionCoordinate_init 3 (Some 1) (Some 0) 1 = Inr r \<and> valid_grid r \<and>
      Region_zoom_in r = Inr cs \<and> length cs = 4 \<and>
      list_all (\<lambda>c. gc_zoom c = 4 \<and> valid_grid c) cs \<and>
      Region_descendant r (hd cs) \<and> valid_grid (hd cs)) \<and>
   Tile_descendant (TileCoordinate 1 (Some 1) (Some 0)) (TileCoordinate 3 (Some 7) (Some 2)) \<and>
   valid_grid (TileCoordinate 3 (Some 7) (Some 2))"
proof -
  let ?t = "TileCoordinate 1 (Some 1) (Some 0)"
  have v: "valid_grid ?t"
    by (simp add: valid_grid_def TileCoordinate_def)
  obtain r where r: "RegionCoordinate_init 3 (Some 1) (Some 0) 1 = Inr r"
    by (simp add: RegionCoordinate_init_def bind_err_def mul_opt_def)
  then have vr: "valid_grid r" and zr: "gc_zoom r = 3"
    by (auto simp: RegionCoordinate_init_def bind_err_def mul_opt_def valid_grid_def)
  have d1: "Tile_descendant ?t (TileCoordinate 2 (Some 3) (Some 1))"
  proof (rule Tile_descendant_child [OF Tile_descendant_self])
    show "Tile_zoom_in ?t =
        Inr [TileCoordinate 2 (Some 2) (Some 0), TileCoordinate 2 (Some 2) (Some 1),
             TileCoordinate 2 (Some 3) (Some 0), TileCoordinate 2 (Some 3) (Some 1)]"
      using Tile_zoom_in_list [of 1 1 0] by (simp add: numeral_2_eq_2)
    show "TileCoordinate 2 (Some 3) (Some 1) \<in>
        set [TileCoordinate 2 (Some 2) (Some 0), TileCoordinate 2 (Some 2) (Some 1),
             TileCoordinate 2 (Some 3) (Some 0), TileCoordinate 2 (Some 3) (Some 1)]"
      by simp
  qed
  have d2: "Tile_descendant ?t (TileCoordinate 3 (Some 7) (Some 2))"
  proof (rule Tile_descendant_child [OF d1])
    show "Tile_zoom_in (TileCoordinate 2 (Some 3) (Some 1)) =
        Inr [TileCoordinate 3 (Some 6) (Some 2), TileCoordinate 3 (Some 6) (Some 3),
             TileCoordinate 3 (Some 7) (Some 2), TileCoordinate 3 (Some 7) (Some 3)]"
      using Tile_zoom_in_list [of 2 3 1] by (simp add: numeral_2_eq_2 numeral_3_eq_3)
    show "TileCoordinate 3 (Some 7) (Some 2) \<in>
        set [TileCoordinate 3 (Some 6) (Some 2), TileCoordinate 3 (Some 6) (Some 3),
             TileCoordinate 3 (Some 7) (Some 2), TileCoordinate 3 (Some 7) (Some 3)]"
      by simp
  qed
  from Region_zoom_in_four [OF r] obtain c1 c2 c3 c4 where
    cs: "Region_zoom_in r = Inr [c1, c2, c3, c4]"
    by blast
  have rd: "Region_descendant r c1"
    using Region_descendant_child [OF Region_descendant_self cs] by simp
  note inst = zoom_in_preserves_valid_grid [of ?t 3 "Some 1" "Some 0" 1 r]
  have zt: "gc_zoom ?t = 1" by (simp add: TileCoordinate_def)
  from inst [of "TileCoordinate 3 (Some 7) (Some 2)" c1] v r vr zr zt d2 rd cs
  show ?thesis
    by (auto simp: list_all_iff)
qed

section \<open>Quad-tree keys are read off the bits\<close>

lemma spec_quad_digit_cases:
  "spec_quad_digit x y i = 0 \<or> spec_quad_digit x y i = 1 \<or>
   spec_quad_digit x y i = 2 \<or> spec_quad_digit x y i = 3"
  by (simp add: spec_quad_digit_def)

lemma py_str_quad_digit: "py_str (spec_quad_digit x y i) = [''0123'' ! spec_quad_digit x y i]"
  using spec_quad_digit_cases [of x y i] by (elim disjE) simp_all

lemma quad_digit_char: "''0123'' ! spec_quad_digit x y i \<in> set ''0123''"
  using spec_quad_digit_cases [of x y i] by (elim disjE) simp_all

lemma quad_loop_digits:
  "quad_loop n tx ty acc =
     acc @ map (\<lambda>i. ''0123'' ! spec_quad_digit tx ty i) (rev [1 ..< Suc n])"
proof (induction n arbitrary: acc)
  case 0
  show ?case by simp
next
  case (Suc n)
  have "quad_loop (Suc n) tx ty acc = quad_loop n tx ty (acc @ py_str (spec_quad_digit tx ty (Suc n)))"
    by (simp add: spec_quad_digit_def Let_def del: py_str.simps)
  also have "\<dots> = (acc @ [''0123'' ! spec_quad_digit tx ty (Suc n)]) @
      map (\<lambda>i. ''0123'' ! spec_quad_digit tx ty i) (rev [1 ..< Suc n])"
    by (simp only: Suc.IH py_str_quad_digit)
  also have "\<dots> = acc @ map (\<lambda>i. ''0123'' ! spec_quad_digit tx ty i) (rev [1 ..< Suc (Suc n)])"
    by simp
  finally show ?case .
qed

text \<open>
  Claim C7: for coordinates \<open>(x, y)\<close> and zoom \<open>z\<close>, encode_quad_tree returns a string
  of exactly \<open>z\<close> characters, each one of the digits 0 to 3; read from the left, they are
  the digits of the bit positions \<open>z, z - 1, \<dots>, 1\<close>, the digit of position \<open>i\<close> being
  \<open>(1 if x & mask else 0) + (2 if y & mask else 0)\<close> with \<open>mask = 1 << (i - 1)\<close>. At zoom 0
  the key is the empty string, and \<open>(zoom, x, y) = (1, 1, 1)\<close> gives \<open>''3''\<close>.
\<close>

theorem encode_quad_tree_digits:
  assumes "gc_x c = Some x" and "gc_y c = Some y"
  shows "(\<exists>key. encode_quad_tree c = Inr key \<and> length key = gc_zoom c \<and>
            key = map (\<lambda>i. ''0123'' ! spec_quad_digit x y i) (rev [1 ..< Suc (gc_zoom c)]) \<and>
            set key \<subseteq> set ''0123'') \<and>
         encode_quad_tree (TileCoordinate 0 x0 y0) = Inr [] \<and>
         encode_quad_tree (TileCoordinate 1 (Some 1) (Some 1)) = Inr ''3''"
proof (intro conjI)
  let ?key = "map (\<lambda>i. ''0123'' ! spec_quad_digit x y i) (rev [1 ..< Suc (gc_zoom c)])"
  have "encode_quad_tree c = Inr ?key"
    using assms by (simp add: encode_quad_tree_def quad_loop_digits)
  moreover have "length ?key = gc_zoom c" by simp
  moreover have "set ?key \<subseteq> set ''0123''"
    using quad_digit_char by (auto simp del: set_simps)
  ultimately show "\<exists>key. encode_quad_tree c = Inr key \<and> length key = gc_zoom c \<and>
            key = map (\<lambda>i. ''0123'' ! spec_quad_digit x y i) (rev [1 ..< Suc (gc_zoom c)]) \<and>
            set key \<subseteq> set ''0123''"
    by blast
next
  show "encode_quad_tree (TileCoordinate 0 x0 y0) = Inr []"
    by (simp add: encode_quad_tree_def TileCoordinate_def)
next
  show "encode_quad_tree (TileCoordinate 1 (Some 1) (Some 1)) = Inr ''3''"
    by (simp add: encode_quad_tree_def TileCoordinate_def)
qed

theorem encode_quad_tree_digits_witness:
  "encode_quad_tree (TileCoordinate 3 (Some 5) (Some 2)) = Inr ''121'' \<and>
   length ''121'' = gc_zoom (TileCoordinate 3 (Some 5) (Some 2))"
proof -
  have x: "gc_x (TileCoordinate 3 (Some 5) (Some 2)) = Some 5"
    and y: "gc_y (TileCoordinate 3 (Some 5) (Some 2)) = Some 2"
    by (simp_all add: TileCoordinate_def)
  have z: "gc_zoom (TileCoordinate 3 (Some 5) (Some 2)) = 3"
    by (simp add: TileCoordinate_def)
  have l: "rev [1 ..< Suc 3] = [3, 2, 1]"
    by (simp add: upt_conv_Cons)
  from encode_quad_tree_digits [OF x y] show ?thesis
    unfolding z l by (simp add: spec_quad_digit_def)
qed

section \<open>Intersections of grid boxes\<close>

lemmas GridBB_unfold =
  GridBB_intersections_with_def GridBB_intersection_with_def GridBB_intersects_def
  GridBB_init_with_def bind_err_def py_and_def py_or_def le_opt_def ge_opt_def gt_opt_def
  max_opt_def min_opt_def mod_opt_def grid_box_def TileCoordinate_def

lemma GridBB_intersection_concrete:
  "GridBB_intersection_with TileCoordinate_new (grid_box z sx0 sy0 sx1 sy1) (grid_box z' ox0 oy0 ox1 oy1)
     = Inr (case spec_rect_intersection z (sx0, sy0, sx1, sy1) (ox0, oy0, ox1, oy1) of
              [] \<Rightarrow> None | b # _ \<Rightarrow> Some b)"
  by (simp add: GridBB_unfold TileCoordinate_new_def spec_rect_intersection_def)

lemma GridBB_init_concrete:
  "GridBB_init_with TileCoordinate_new z (Some a) (Some b) (Some c) (Some d) = Inr (grid_box z a b c d)"
  by (simp add: GridBB_unfold TileCoordinate_new_def)

lemma rect_as_list:
  "(case (case spec_rect_intersection z a b of [] \<Rightarrow> None | c # _ \<Rightarrow> Some c) of
      None \<Rightarrow> [] | Some c \<Rightarrow> [c]) = spec_rect_intersection z a b"
  by (cases a, cases b) (simp add: spec_rect_intersection_def)

lemma GridBB_intersections_concrete:
  "GridBB_intersections_with TileCoordinate_new
       (grid_box z sx0 sy0 sx1 sy1) (grid_box z' ox0 oy0 ox1 oy1) =
     Inr (spec_rect_intersection z (sx0, sy0, sx1, sy1) (ox0, oy0, ox1, oy1) @
          (if sx1 \<ge> 2 ^ z
           then spec_rect_intersection z (0, sy0, sx1 mod 2 ^ z, sy1) (ox0, oy0, ox1, oy1)
           else []))"
proof -
  have sel: "bb_zoom (grid_box z sx0 sy0 sx1 sy1) = z"
    "gc_x (bb_max (grid_box z sx0 sy0 sx1 sy1)) = Some sx1"
    "gc_y (bb_min (grid_box z sx0 sy0 sx1 sy1)) = Some sy0"
    "gc_y (bb_max (grid_box z sx0 sy0 sx1 sy1)) = Some sy1"
    by (simp_all add: grid_box_def TileCoordinate_def)
  show ?thesis
    unfolding GridBB_intersections_with_def GridBB_intersection_concrete sel
    by (simp add: bind_err_def ge_opt_def mod_opt_def GridBB_init_concrete
        GridBB_intersection_concrete rect_as_list Let_def)
qed


lemma GridBB_init_raises: "GridBB_init zoom min_x min_y max_x max_y = Inl TypeError"
  by (simp add: GridBB_init_def GridBB_init_with_def GridCoordinate_new_def bind_err_def)

lemma GridBB_intersection_never_builds:
  "GridBB_intersection self other = Inl TypeError \<or> GridBB_intersection self other = Inr None"
proof (cases "GridBB_intersects self other")
  case (Inl e)
  then show ?thesis
    by (auto simp: GridBB_intersection_def GridBB_intersection_with_def GridBB_intersects_def
        bind_err_def py_and_def le_opt_def ge_opt_def split: option.splits if_splits sum.splits)
next
  case (Inr p)
  then show ?thesis
    by (auto simp: GridBB_intersection_def GridBB_intersection_with_def bind_err_def
        GridBB_init_with_def GridCoordinate_new_def max_opt_def min_opt_def
        split: option.splits)
qed

lemma GridBB_intersections_never_nonempty:
  "GridBB_intersections self other = Inr bs \<Longrightarrow> bs = []"
  using GridBB_intersection_never_builds [of self other]
  by (auto simp: GridBB_intersections_def GridBB_intersection_def GridBB_intersections_with_def
      bind_err_def GridBB_init_with_def GridCoordinate_new_def ge_opt_def mod_opt_def Let_def
      split: option.splits if_splits sum.splits)

lemma GridBB_intersections_raises_or_empty:
  "GridBB_intersections self other = Inl TypeError \<or> GridBB_intersections self other = Inr []"
  using GridBB_intersection_never_builds [of self other]
  by (auto simp: GridBB_intersections_def GridBB_intersection_def GridBB_intersections_with_def
      bind_err_def GridBB_init_with_def GridCoordinate_new_def ge_opt_def mod_opt_def Let_def
      split: option.splits if_splits sum.splits)

lemma GridBB_is_inside_concrete:
  "GridBB_is_inside (grid_box z sx0 sy0 sx1 sy1) (TileCoordinate z' (Some tx) (Some ty)) =
     Inr (sy0 \<le> ty \<and> ty \<le> sy1 \<and>
          (sx0 \<le> tx \<and> tx \<le> sx1 \<or> sx1 > 2 ^ z' - 1 \<and> 0 \<le> tx \<and> tx \<le> sx1 mod 2 ^ z'))"
  by (simp add: GridBB_is_inside_def GridBB_unfold)

lemma is_inside_iff_intersections_concrete:
  "GridBB_is_inside (grid_box z sx0 sy0 sx1 sy1) (TileCoordinate z (Some tx) (Some ty)) =
     Inr (GridBB_intersections_with TileCoordinate_new
            (grid_box z sx0 sy0 sx1 sy1) (grid_box z tx ty tx ty) \<noteq> Inr [])"
  unfolding GridBB_is_inside_concrete GridBB_intersections_concrete
  by (auto simp: spec_rect_intersection_def)

text \<open>
  Claim C5 says that \<^verbatim>\<open>is_inside(tile)\<close> holds exactly when \<^verbatim>\<open>intersections\<close> of the
  one-tile box of that tile is non-empty. The two tests do agree
  (\<open>is_inside_iff_intersections_concrete\<close>, for corners built by a concrete class), but the
  source cannot deliver the second half: the one-tile box cannot be built, and
  \<^verbatim>\<open>intersections\<close> raises TypeError as soon as it has a box to build
  (\<open>GridBB_intersections_never_nonempty\<close>). At the seam tile \<open>(0, 0)\<close> of zoom 2 and the
  wrapping box from \<open>(3, 0)\<close> to \<open>(5, 1)\<close>, \<^verbatim>\<open>is_inside\<close> answers True while the
  construction of the tile's box and \<^verbatim>\<open>intersections\<close> both raise TypeError.
\<close>

theorem is_inside_intersections_failing_input:
  "GridBB_is_inside (grid_box 2 3 0 5 1) (TileCoordinate 2 (Some 0) (Some 0)) = Inr True \<and>
   GridBB_init 2 (Some 0) (Some 0) (Some 0) (Some 0) = Inl TypeError \<and>
   GridBB_intersections (grid_box 2 3 0 5 1) (grid_box 2 0 0 0 0) = Inl TypeError"
proof (intro conjI)
  show "GridBB_is_inside (grid_box 2 3 0 5 1) (TileCoordinate 2 (Some 0) (Some 0)) = Inr True"
    by (simp add: GridBB_is_inside_concrete)
  show "GridBB_init 2 (Some 0) (Some 0) (Some 0) (Some 0) = Inl TypeError"
    by (rule GridBB_init_raises)
  show "GridBB_intersections (grid_box 2 3 0 5 1) (grid_box 2 0 0 0 0) = Inl TypeError"
    by (simp add: GridBB_intersections_def
      GridBB_intersections_with_def GridBB_intersection_with_def GridBB_intersects_def
      GridBB_init_with_def GridCoordinate_new_def bind_err_def py_and_def le_opt_def ge_opt_def
      mod_opt_def grid_box_def TileCoordinate_def)
qed




section \<open>Tiles and Mercator coordinates\<close>

lemma init_geometry_default: "init_geometry 256 = Inr default_geometry"
  by (simp add: init_geometry_def default_geometry_def Let_def)







section \<open>Unset coordinate components\<close>



section \<open>Intersection of geographic boxes\<close>






section \<open>Geographic and Mercator coordinates in exact arithmetic\<close>

lemma init_geometry_shift:
  assumes "init_geometry ts = Inr g"
  shows "originshift_180 g = pi * 6378137 / 180 \<and> c180_originshift g = 180 / (pi * 6378137)"
  using assms by (auto simp: init_geometry_def Let_def split: if_splits)

lemma latitude_round_trip:
  fixes lat :: real
  assumes "- 90 < lat" and "lat < 90"
  shows "0 < tan ((90 + lat) * pi_360) \<and>
         (2 * arctan (tan ((90 + lat) * pi_360)) - pi_2) * c180_pi = lat"
proof -
  define th where "th = (90 + lat) * pi_360"
  have lo: "0 < th" using assms by (simp add: th_def pi_360_def)
  have "th = pi / 2 * ((90 + lat) / 180)" by (simp add: th_def pi_360_def)
  also have "\<dots> < pi / 2 * 1"
    using assms by (intro mult_strict_left_mono) auto
  finally have hi: "th < pi / 2" by simp
  have pos: "0 < tan th" using lo hi by (rule tan_gt_zero)
  have "arctan (tan th) = th"
    using lo hi by (intro arctan_tan) auto
  then have "(2 * arctan (tan th) - pi_2) * c180_pi = (2 * th - pi / 2) * (180 / pi)"
    by (simp add: pi_2_def c180_pi_def)
  also have "\<dots> = lat"
    by (simp add: th_def pi_360_def field_simps)
  finally show ?thesis using pos unfolding th_def by simp
qed

text \<open>
  In exact arithmetic the conversion to Mercator coordinates and back is the identity
  for every latitude strictly between \<open>-90\<close> and \<open>90\<close> degrees. (Claim C9 bounds the
  rounding error of the floating-point computation, which this model does not have.)
\<close>

theorem geographic_round_trip_exact:
  assumes "init_geometry ts = Inr g" and "- 90 < lat" and "lat < 90"
  shows "\<exists>m. Geo_to_mercator g \<lparr>geo_lon = Some lon, geo_lat = Some lat, geo_height = h\<rparr> = Inr m \<and>
             geo_lon (Merc_to_geographic g m) = Some lon \<and>
             geo_lat (Merc_to_geographic g m) = Some lat"
proof -
  define t where "t = tan ((90 + lat) * pi_360)"
  from latitude_round_trip [OF assms(2,3)]
  have pos: "0 < t" and inv: "(2 * arctan t - pi_2) * c180_pi = lat"
    by (simp_all add: t_def)
  from init_geometry_shift [OF assms(1)]
  have s1: "originshift_180 g = pi * 6378137 / 180" and s2: "c180_originshift g = 180 / (pi * 6378137)"
    by simp_all
  define m where "m = \<lparr>merc_x = Some (lon * originshift_180 g),
                        merc_y = Some (ln t / pi_180 * originshift_180 g)\<rparr>"
  have fwd: "Geo_to_mercator g \<lparr>geo_lon = Some lon, geo_lat = Some lat, geo_height = h\<rparr> = Inr m"
    using pos by (simp add: Geo_to_mercator_def bind_err_def num_opt_def Let_def t_def [symmetric] m_def)
  have "lon * originshift_180 g * c180_originshift g = lon"
    by (simp add: s1 s2)
  then have lon: "geo_lon (Merc_to_geographic g m) = Some lon"
    by (simp add: Merc_to_geographic_def m_def)
  have "ln t / pi_180 * originshift_180 g * c180_originshift g * pi_180 = ln t"
    by (simp add: s1 s2 pi_180_def)
  then have "exp (ln t / pi_180 * originshift_180 g * c180_originshift g * pi_180) = t"
    using pos by simp
  then have lat: "geo_lat (Merc_to_geographic g m) = Some lat"
    using inv by (simp add: Merc_to_geographic_def m_def)
  from fwd lon lat show ?thesis by blast
qed

theorem geographic_round_trip_exact_witness:
  "init_geometry 256 = Inr default_geometry \<and> (- 90 :: real) < 45 \<and> (45 :: real) < 90 \<and>
   (\<exists>m. Geo_to_mercator default_geometry \<lparr>geo_lon = Some 10, geo_lat = Some 45, geo_height = 0\<rparr>
           = Inr m \<and>
        geo_lon (Merc_to_geographic default_geometry m) = Some 10 \<and>
        geo_lat (Merc_to_geographic default_geometry m) = Some 45)"
proof -
  have a: "(- 90 :: real) < 45" and b: "(45 :: real) < 90" by simp_all
  from geographic_round_trip_exact [OF init_geometry_default a b, of 10 0]
    init_geometry_default a b
  show ?thesis by simp
qed

end
